theory Spec2Isabelle
  imports Complex_Main
begin

section \<open>Python values and exceptions\<close>

text \<open>
  The program is Python. Its \<open>float\<close> values are modelled by \<^typ>\<open>real\<close>: the
  arithmetic of the model is exact, so the model has no NaN, no infinities, no
  \<open>OverflowError\<close> of \<open>**\<close> and no representation error. Python's \<open>int\<close> is
  \<^typ>\<open>int\<close>. An exception is a value \<open>Inl e\<close> of a sum type.
\<close>

datatype exn =
    ZeroDivisionError
  | RuntimeError
  | KeyError string
  | TypeError
  | ValueError
  | ClientError string
  | OtherException
  | InvalidConfig

text \<open>
  \<open>InvalidConfig\<close> is the error named by the specification; no statement of the source
  raises it. \<open>ClientError c\<close> is botocore's exception with error code \<open>c\<close>;
  \<open>OtherException\<close> stands for any exception of the storage or network layer that is
  not a \<open>ClientError\<close>.
\<close>

text \<open>True division \<open>a / b\<close> on floats raises on a zero divisor.\<close>

definition py_truediv :: "real \<Rightarrow> real \<Rightarrow> exn + real" where
  "py_truediv a b = (if b = 0 then Inl ZeroDivisionError else Inr (a / b))"

text \<open>
  \<open>round(x, ndigits)\<close> rounds to the nearest multiple of \<open>10 ** -ndigits\<close>, a tie
  going to the even neighbour.
\<close>

definition py_round :: "real \<Rightarrow> nat \<Rightarrow> real" where
  "py_round x ndigits =
     (let s = 10 ^ ndigits;
          y = x * s;
          f = \<lfloor>y\<rfloor>;
          d = y - of_int f
      in (if d < 1 / 2 then of_int f
          else if 1 / 2 < d then of_int (f + 1)
          else if even f then of_int f
          else of_int (f + 1)) / s)"

section \<open>retirement\_tracker.py\<close>

record RetirementConfig =
  target_amount :: real
  target_age :: int
  current_age :: int
  monthly_contribution :: real
  assumed_annual_return :: real
  birth_year :: "int option"

text \<open>
  The dataclass constructor followed by \<open>__post_init__\<close>. \<open>current_year\<close> is the
  value of \<open>datetime.now().year\<close> at construction.
\<close>

definition RetirementConfig_init ::
  "int \<Rightarrow> real \<Rightarrow> int \<Rightarrow> int \<Rightarrow> real \<Rightarrow> real \<Rightarrow> int option \<Rightarrow> RetirementConfig" where
  "RetirementConfig_init current_year tgt_amount tgt_age cur_age contribution annual_return b_year =
     (let self = \<lparr>target_amount = tgt_amount, target_age = tgt_age, current_age = cur_age,
                   monthly_contribution = contribution, assumed_annual_return = annual_return,
                   birth_year = b_year\<rparr>
      in case birth_year self of
           Some b \<Rightarrow> self\<lparr>current_age := current_year - b\<rparr>
         | None \<Rightarrow> self)"

record RetirementProgress =
  current_value :: real
  progress_target_amount :: real
  percent_complete :: real
  years_remaining :: int
  monthly_needed :: real
  on_track :: bool
  projected_value :: real
  surplus_or_deficit :: real

text \<open>\<open>RetirementTracker._project_future_value\<close>\<close>

definition project_future_value :: "real \<Rightarrow> real \<Rightarrow> int \<Rightarrow> real \<Rightarrow> exn + real" where
  "project_future_value current contribution years annual_return =
     (if years \<le> 0 then Inr current
      else
        let months = years * 12;
            monthly_return = annual_return / 12;
            fv_current = current * ((1 + monthly_return) ^ nat months)
        in if monthly_return > 0 \<and> contribution > 0 then
             (case py_truediv ((1 + monthly_return) ^ nat months - 1) monthly_return of
                Inl e \<Rightarrow> Inl e
              | Inr q \<Rightarrow> Inr (fv_current + contribution * q))
           else Inr (fv_current + contribution * of_int months))"

text \<open>\<open>RetirementTracker._calculate_monthly_needed\<close>\<close>

definition calculate_monthly_needed :: "real \<Rightarrow> real \<Rightarrow> int \<Rightarrow> real \<Rightarrow> exn + real" where
  "calculate_monthly_needed current target years annual_return =
     (if years \<le> 0 then Inr (max 0 (target - current))
      else
        let months = years * 12;
            monthly_return = annual_return / 12;
            fv_current = current * ((1 + monthly_return) ^ nat months);
            needed_from_contributions = target - fv_current
        in if needed_from_contributions \<le> 0 then Inr 0
           else if monthly_return > 0 then
             py_truediv (needed_from_contributions * monthly_return)
                        ((1 + monthly_return) ^ nat months - 1)
           else py_truediv needed_from_contributions (of_int months))"

text \<open>\<open>RetirementTracker.calculate_progress\<close>, with \<open>self.config\<close> as first argument.\<close>

definition calculate_progress :: "RetirementConfig \<Rightarrow> real \<Rightarrow> exn + RetirementProgress" where
  "calculate_progress config current_portfolio_value =
     (let yrs = max 0 (target_age config - current_age config) in
      case py_truediv current_portfolio_value (target_amount config) of
        Inl e \<Rightarrow> Inl e
      | Inr q \<Rightarrow>
          let pct = q * 100 in
          (case project_future_value current_portfolio_value (monthly_contribution config)
                  yrs (assumed_annual_return config) of
             Inl e \<Rightarrow> Inl e
           | Inr projected \<Rightarrow>
               (case calculate_monthly_needed current_portfolio_value (target_amount config)
                       yrs (assumed_annual_return config) of
                  Inl e \<Rightarrow> Inl e
                | Inr needed \<Rightarrow>
                    Inr \<lparr>current_value = py_round current_portfolio_value 2,
                         progress_target_amount = py_round (target_amount config) 2,
                         percent_complete = py_round pct 1,
                         years_remaining = yrs,
                         monthly_needed = py_round (max 0 needed) 2,
                         on_track = (projected \<ge> target_amount config),
                         projected_value = py_round projected 2,
                         surplus_or_deficit = py_round (projected - target_amount config) 2\<rparr>)))"

section \<open>Dynamically typed values, dates and the object store\<close>

text \<open>
  A value held by a dictionary that \<open>json.loads\<close> returns: its type is only known at run
  time. A dictionary is an association list whose keys are distinct.
\<close>

datatype pyval =
    PNone
  | PBool bool
  | PInt int
  | PFloat real
  | PStr string
  | PList "pyval list"
  | PDict "(string \<times> pyval) list"

text \<open>Subscription \<open>data[key]\<close> with a string key.\<close>

definition py_getitem :: "pyval \<Rightarrow> string \<Rightarrow> exn + pyval" where
  "py_getitem data k =
     (case data of
        PDict items \<Rightarrow> (case map_of items k of Some v \<Rightarrow> Inr v | None \<Rightarrow> Inl (KeyError k))
      | _ \<Rightarrow> Inl TypeError)"

text \<open>
  The builtin \<open>float(v)\<close>. The interpreter's parser of float literals is the parameter
  \<open>float_of_str\<close>, which returns \<open>None\<close> where \<open>float\<close> raises \<open>ValueError\<close>.
\<close>

definition py_float :: "(string \<Rightarrow> real option) \<Rightarrow> pyval \<Rightarrow> exn + real" where
  "py_float float_of_str v =
     (case v of
        PFloat x \<Rightarrow> Inr x
      | PInt i \<Rightarrow> Inr (of_int i)
      | PBool b \<Rightarrow> Inr (if b then 1 else 0)
      | PStr s \<Rightarrow> (case float_of_str s of Some x \<Rightarrow> Inr x | None \<Rightarrow> Inl ValueError)
      | _ \<Rightarrow> Inl TypeError)"

text \<open>
  \<open>datetime.date\<close> and its subclass \<open>datetime.datetime\<close> (naive, without time zone).
  Python keeps \<open>1 \<le> year \<le> 9999\<close>, \<open>1 \<le> month \<le> 12\<close> and \<open>1 \<le> day \<le> 31\<close>.
\<close>

record date =
  year :: nat
  month :: nat
  day :: nat

record datetime = date +
  hour :: nat
  minute :: nat
  second :: nat
  microsecond :: nat

definition digit :: "nat \<Rightarrow> char" where
  "digit n = ''0123456789'' ! n"

fun str_nat :: "nat \<Rightarrow> string" where
  "str_nat n = (if n < 10 then [digit n] else str_nat (n div 10) @ [digit (n mod 10)])"

declare str_nat.simps [simp del]

text \<open>The format \<open>%0wd\<close>: decimal digits, padded with zeros on the left to width \<open>w\<close>.\<close>

definition zfill :: "nat \<Rightarrow> nat \<Rightarrow> string" where
  "zfill w n = replicate (w - length (str_nat n)) CHR ''0'' @ str_nat n"

text \<open>\<open>d.strftime("%Y-%m-%d")\<close>, on a date or a datetime.\<close>

definition strftime_ymd :: "'a date_scheme \<Rightarrow> string" where
  "strftime_ymd d = zfill 4 (year d) @ ''-'' @ zfill 2 (month d) @ ''-'' @ zfill 2 (day d)"

text \<open>\<open>datetime.isoformat()\<close> of a naive datetime.\<close>

definition isoformat :: "datetime \<Rightarrow> string" where
  "isoformat t =
     strftime_ymd t @ ''T'' @ zfill 2 (hour t) @ '':'' @ zfill 2 (minute t) @ '':'' @ zfill 2 (second t)
       @ (if microsecond t \<noteq> 0 then ''.'' @ zfill 6 (microsecond t) else [])"

text \<open>
  The body of a stored object: \<open>Json v\<close> is the text that \<open>json.dumps(v)\<close> writes and that
  \<open>json.loads\<close> reads back as \<open>v\<close>; \<open>NotJson\<close> is a body that \<open>json.loads\<close> rejects.
\<close>

datatype body = Json pyval | NotJson

definition json_dumps :: "pyval \<Rightarrow> body" where
  "json_dumps v = Json v"

definition json_loads :: "body \<Rightarrow> exn + pyval" where
  "json_loads b = (case b of Json v \<Rightarrow> Inr v | NotJson \<Rightarrow> Inl ValueError)"

section \<open>snapshot\_service.py\<close>

definition SNAPSHOT_PREFIX :: string where
  "SNAPSHOT_PREFIX = ''portfolio-snapshots''"

text \<open>
  \<open>from_dict\<close> stores \<open>data["account_number"]\<close> and \<open>data["timestamp"]\<close> as they are,
  whatever their type, and converts the other two with \<open>float\<close>: the first two fields
  are dynamically typed, the last two are floats.
\<close>

record PortfolioSnapshot =
  account_number :: pyval
  timestamp :: pyval
  equity :: real
  cash :: real

text \<open>\<open>PortfolioSnapshot.to_dict\<close>\<close>

definition to_dict :: "PortfolioSnapshot \<Rightarrow> pyval" where
  "to_dict self =
     PDict [(''account_number'', account_number self),
            (''timestamp'', timestamp self),
            (''equity'', PFloat (equity self)),
            (''cash'', PFloat (cash self))]"

text \<open>\<open>PortfolioSnapshot.from_dict\<close>: the keyword arguments are evaluated in order.\<close>

definition from_dict :: "(string \<Rightarrow> real option) \<Rightarrow> pyval \<Rightarrow> exn + PortfolioSnapshot" where
  "from_dict float_of_str data =
     (case py_getitem data ''account_number'' of Inl e \<Rightarrow> Inl e | Inr a \<Rightarrow>
      case py_getitem data ''timestamp'' of Inl e \<Rightarrow> Inl e | Inr t \<Rightarrow>
      case py_getitem data ''equity'' of Inl e \<Rightarrow> Inl e | Inr ev \<Rightarrow>
      case py_float float_of_str ev of Inl e \<Rightarrow> Inl e | Inr eq \<Rightarrow>
      case py_getitem data ''cash'' of Inl e \<Rightarrow> Inl e | Inr cv \<Rightarrow>
      case py_float float_of_str cv of Inl e \<Rightarrow> Inl e | Inr ca \<Rightarrow>
        Inr \<lparr>account_number = a, timestamp = t, equity = eq, cash = ca\<rparr>)"

text \<open>
  A \<open>SnapshotService\<close> with the state of its S3 client: \<open>objects\<close> are the objects of the
  bucket by key, and while \<open>fault\<close> is \<open>Some e\<close> every request of the client raises \<open>e\<close>
  (the service is unreachable, access is denied, ...).
\<close>

record SnapshotService =
  bucket :: string
  objects :: "string \<rightharpoonup> body"
  fault :: "exn option"

definition put_object :: "SnapshotService \<Rightarrow> string \<Rightarrow> body \<Rightarrow> exn + SnapshotService" where
  "put_object self k b =
     (case fault self of
        Some e \<Rightarrow> Inl e
      | None \<Rightarrow> Inr (self\<lparr>objects := (objects self)(k \<mapsto> b)\<rparr>))"

definition get_object :: "SnapshotService \<Rightarrow> string \<Rightarrow> exn + body" where
  "get_object self k =
     (case fault self of
        Some e \<Rightarrow> Inl e
      | None \<Rightarrow> (case objects self k of
                   None \<Rightarrow> Inl (ClientError ''NoSuchKey'')
                 | Some b \<Rightarrow> Inr b))"

definition snapshot_key :: "string \<Rightarrow> string \<Rightarrow> string" where
  "snapshot_key account date_str =
     SNAPSHOT_PREFIX @ ''/account-'' @ account @ ''/'' @ date_str @ ''.json''"

text \<open>
  \<open>SnapshotService.save_snapshot\<close>; \<open>now\<close> is the value of \<open>datetime.now()\<close>, which
  is read when no timestamp is given (a \<open>datetime\<close> is always true in a condition). Both
  \<open>except\<close> clauses log and return \<open>False\<close>. The result is the returned flag and the
  service after the call.
\<close>

definition save_snapshot ::
  "datetime \<Rightarrow> SnapshotService \<Rightarrow> string \<Rightarrow> real \<Rightarrow> real \<Rightarrow> datetime option
     \<Rightarrow> bool \<times> SnapshotService" where
  "save_snapshot now self account eq ca ts_opt =
     (let ts = (case ts_opt of None \<Rightarrow> now | Some t \<Rightarrow> t);
          snapshot = \<lparr>account_number = PStr account, timestamp = PStr (isoformat ts),
                      equity = eq, cash = ca\<rparr>;
          date_str = strftime_ymd ts;
          k = snapshot_key account date_str
      in case put_object self k (json_dumps (to_dict snapshot)) of
           Inl e \<Rightarrow> (False, self)
         | Inr self' \<Rightarrow> (True, self'))"

text \<open>
  \<open>SnapshotService.get_snapshot\<close>: every exception of the \<open>try\<close> block is caught and
  logged, and the method then returns \<open>None\<close>.
\<close>

definition get_snapshot ::
  "(string \<Rightarrow> real option) \<Rightarrow> SnapshotService \<Rightarrow> string \<Rightarrow> date \<Rightarrow> PortfolioSnapshot option" where
  "get_snapshot float_of_str self account snapshot_date =
     (let date_str = strftime_ymd snapshot_date;
          k = snapshot_key account date_str
      in case get_object self k of
           Inl e \<Rightarrow> None
         | Inr b \<Rightarrow>
             (case json_loads b of
                Inl e \<Rightarrow> None
              | Inr data \<Rightarrow>
                  (case from_dict float_of_str data of
                     Inl e \<Rightarrow> None
                   | Inr snapshot \<Rightarrow> Some snapshot)))"

record PeriodChange =
  change_dollars :: real
  change_percent :: real
  start_equity :: real
  end_equity :: real

text \<open>
  \<open>SnapshotService.calculate_period_change\<close>; \<open>today\<close> is the value of \<open>date.today()\<close>.
  A \<open>PortfolioSnapshot\<close> object and a \<open>date\<close> are always true in a condition, so
  \<open>not x\<close> holds exactly for \<open>None\<close>.
\<close>

definition calculate_period_change ::
  "(string \<Rightarrow> real option) \<Rightarrow> date \<Rightarrow> SnapshotService \<Rightarrow> string \<Rightarrow> date \<Rightarrow> date option
     \<Rightarrow> exn + PeriodChange option" where
  "calculate_period_change float_of_str today self account start_date end_date_opt =
     (let end_date = (case end_date_opt of None \<Rightarrow> today | Some d \<Rightarrow> d);
          start_snapshot = get_snapshot float_of_str self account start_date;
          end_snapshot = get_snapshot float_of_str self account end_date
      in case (start_snapshot, end_snapshot) of
           (Some s, Some e) \<Rightarrow>
             (let dollars = equity e - equity s in
              if equity s > 0 then
                (case py_truediv dollars (equity s) of
                   Inl err \<Rightarrow> Inl err
                 | Inr q \<Rightarrow> Inr (Some \<lparr>change_dollars = dollars, change_percent = q * 100,
                                        start_equity = equity s, end_equity = equity e\<rparr>))
              else Inr (Some \<lparr>change_dollars = dollars, change_percent = 0,
                               start_equity = equity s, end_equity = equity e\<rparr>))
         | _ \<Rightarrow> Inr None)"

section \<open>robinhood\_client.py\<close>

text \<open>
  The brokerage is an external collaborator. \<open>rh_portfolio\<close> is what the body of
  \<open>get_portfolio_value_for_account\<close> produces from the answers of the brokerage API
  (\<open>Inl e\<close> when it raises \<open>e\<close>, which the method raises again), and \<open>rh_holdings\<close> is
  what the body of \<open>get_holdings_for_account\<close> produces (that body catches every
  exception and returns the empty list). \<open>PortfolioValue\<close> keeps the two keys of the
  portfolio dictionary that are read below, under the names \<open>pv_equity\<close> and \<open>pv_cash\<close>;
  \<open>HoldingData\<close> is a dictionary of the holdings list, whose key \<open>equity\<close> is named
  \<open>position_equity\<close> here.
\<close>

record PortfolioValue =
  pv_equity :: real
  pv_cash :: real

record HoldingData =
  symbol :: string
  name :: string
  quantity :: real
  average_buy_price :: real
  current_price :: real
  position_equity :: real
  percent_change :: real
  equity_change :: real
  percentage_of_portfolio :: real

record RobinhoodClient =
  logged_in :: bool
  rh_portfolio :: "string \<Rightarrow> exn + PortfolioValue"
  rh_holdings :: "string \<Rightarrow> HoldingData list"

text \<open>\<open>RobinhoodClient._ensure_logged_in\<close>\<close>

definition ensure_logged_in :: "RobinhoodClient \<Rightarrow> exn + unit" where
  "ensure_logged_in self = (if \<not> logged_in self then Inl RuntimeError else Inr ())"

definition get_portfolio_value_for_account :: "RobinhoodClient \<Rightarrow> string \<Rightarrow> exn + PortfolioValue" where
  "get_portfolio_value_for_account self account =
     (case ensure_logged_in self of
        Inl e \<Rightarrow> Inl e
      | Inr _ \<Rightarrow> rh_portfolio self account)"

definition get_holdings_for_account :: "RobinhoodClient \<Rightarrow> string \<Rightarrow> exn + HoldingData list" where
  "get_holdings_for_account self account =
     (case ensure_logged_in self of
        Inl e \<Rightarrow> Inl e
      | Inr _ \<Rightarrow> Inr (rh_holdings self account))"

record AccountPerformance =
  cost_basis :: real
  perf_current_value :: real
  gain_loss_dollars :: real
  gain_loss_percent :: real
  holdings_count :: nat

text \<open>
  The loop of \<open>calculate_account_performance\<close> over the holdings, on the accumulators
  \<open>(total_cost_basis, total_current_value, total_gain_loss)\<close>.
\<close>

fun sum_holdings :: "HoldingData list \<Rightarrow> real \<times> real \<times> real \<Rightarrow> real \<times> real \<times> real" where
  "sum_holdings [] acc = acc"
| "sum_holdings (h # hs) (total_cost_basis, total_current_value, total_gain_loss) =
     (let cost = quantity h * average_buy_price h;
          current_val = quantity h * current_price h
      in sum_holdings hs (total_cost_basis + cost, total_current_value + current_val,
                          total_gain_loss + (current_val - cost)))"

text \<open>
  \<open>RobinhoodClient.calculate_account_performance\<close>: the login check is outside the
  \<open>try\<close> block; an exception inside it is caught and the method returns \<open>None\<close>. The
  portfolio dictionary is never empty, so the test \<open>not portfolio\<close> fails.
\<close>

definition calculate_account_performance ::
  "RobinhoodClient \<Rightarrow> string \<Rightarrow> exn + AccountPerformance option" where
  "calculate_account_performance self account =
     (case ensure_logged_in self of
        Inl e \<Rightarrow> Inl e
      | Inr _ \<Rightarrow>
          (case get_portfolio_value_for_account self account of
             Inl e \<Rightarrow> Inr None
           | Inr portfolio \<Rightarrow>
               (case get_holdings_for_account self account of
                  Inl e \<Rightarrow> Inr None
                | Inr holdings \<Rightarrow>
                    (case sum_holdings holdings (0, 0, 0) of
                       (total_cost_basis, total_current_value, total_gain_loss) \<Rightarrow>
                         let total_current_with_cash = total_current_value + pv_cash portfolio in
                         if total_cost_basis > 0 then
                           (case py_truediv total_gain_loss total_cost_basis of
                              Inl e \<Rightarrow> Inr None
                            | Inr q \<Rightarrow>
                                Inr (Some \<lparr>cost_basis = total_cost_basis,
                                           perf_current_value = total_current_with_cash,
                                           gain_loss_dollars = total_gain_loss,
                                           gain_loss_percent = q * 100,
                                           holdings_count = length holdings\<rparr>))
                         else
                           Inr (Some \<lparr>cost_basis = total_cost_basis,
                                      perf_current_value = total_current_with_cash,
                                      gain_loss_dollars = total_gain_loss,
                                      gain_loss_percent = 0,
                                      holdings_count = length holdings\<rparr>)))))"

record Historical =
  start_value :: real
  end_value :: real
  hist_change_dollars :: real
  hist_change_percent :: real
  data_points :: nat
  method_name :: string

text \<open>
  \<open>RobinhoodClient.get_historical_portfolio_for_account\<close>: again the login check is
  outside the \<open>try\<close> block. The argument \<open>span\<close> is not read.
\<close>

definition get_historical_portfolio_for_account ::
  "RobinhoodClient \<Rightarrow> string \<Rightarrow> string \<Rightarrow> exn + Historical option" where
  "get_historical_portfolio_for_account self account span' =
     (case ensure_logged_in self of
        Inl e \<Rightarrow> Inl e
      | Inr _ \<Rightarrow>
          (case calculate_account_performance self account of
             Inl e \<Rightarrow> Inr None
           | Inr None \<Rightarrow> Inr None
           | Inr (Some holdings_perf) \<Rightarrow>
               Inr (Some \<lparr>start_value = cost_basis holdings_perf,
                          end_value = perf_current_value holdings_perf,
                          hist_change_dollars = gain_loss_dollars holdings_perf,
                          hist_change_percent = gain_loss_percent holdings_perf,
                          data_points = holdings_count holdings_perf,
                          method_name = ''holdings_based''\<rparr>)))"

section \<open>portfolio\_analyzer.py\<close>

record Change =
  dollars :: real
  percent :: real

record PortfolioAnalyzer =
  client :: RobinhoodClient
  snapshot_service :: "SnapshotService option"

text \<open>
  \<open>PortfolioAnalyzer._calculate_period_change_from_snapshots\<close>; \<open>today\<close> is the value of
  \<open>date.today()\<close>. The \<open>try\<close> block catches every exception, also the one of calling a
  method of a missing service.
\<close>

definition calculate_period_change_from_snapshots ::
  "(string \<Rightarrow> real option) \<Rightarrow> date \<Rightarrow> PortfolioAnalyzer \<Rightarrow> string \<Rightarrow> string \<Rightarrow> Change option" where
  "calculate_period_change_from_snapshots float_of_str today self account span' =
     (case (if span' = ''month'' then Some (today\<lparr>day := 1\<rparr>)
            else if span' = ''year'' then Some (today\<lparr>month := 1, day := 1\<rparr>)
            else None) of
        None \<Rightarrow> None
      | Some start_date \<Rightarrow>
          (case snapshot_service self of
             None \<Rightarrow> None
           | Some service \<Rightarrow>
               (case calculate_period_change float_of_str today service account start_date (Some today) of
                  Inl e \<Rightarrow> None
                | Inr None \<Rightarrow> None
                | Inr (Some period_change) \<Rightarrow>
                    Some \<lparr>dollars = change_dollars period_change,
                          percent = change_percent period_change\<rparr>)))"

text \<open>\<open>PortfolioAnalyzer._calculate_period_change_for_account\<close>\<close>

definition calculate_period_change_for_account ::
  "(string \<Rightarrow> real option) \<Rightarrow> date \<Rightarrow> PortfolioAnalyzer \<Rightarrow> string \<Rightarrow> string \<Rightarrow> exn + Change" where
  "calculate_period_change_for_account float_of_str today self account span' =
     (case (case snapshot_service self of
              Some service \<Rightarrow> calculate_period_change_from_snapshots float_of_str today self account span'
            | None \<Rightarrow> None) of
        Some period_change \<Rightarrow> Inr period_change
      | None \<Rightarrow>
          (case get_historical_portfolio_for_account (client self) account span' of
             Inl e \<Rightarrow> Inl e
           | Inr (Some historical) \<Rightarrow>
               Inr \<lparr>dollars = hist_change_dollars historical,
                    percent = hist_change_percent historical\<rparr>
           | Inr None \<Rightarrow> Inr \<lparr>dollars = 0, percent = 0\<rparr>))"

text \<open>
  The dataclasses \<open>Holding\<close> and \<open>AccountReport\<close>. The fields of \<open>Holding\<close> carry the
  prefix \<open>h_\<close>, and the field \<open>account_number\<close> of \<open>AccountReport\<close> is
  \<open>report_account_number\<close>.
\<close>

record Holding =
  h_symbol :: string
  h_name :: string
  h_quantity :: real
  h_current_price :: real
  h_average_cost :: real
  h_total_value :: real
  h_percent_change :: real
  h_portfolio_percent :: real

record AccountReport =
  account_type :: string
  report_account_number :: string
  total_value :: real
  cash_balance :: real
  monthly_change_dollars :: real
  monthly_change_percent :: real
  ytd_change_dollars :: real
  ytd_change_percent :: real
  top_holdings :: "Holding list"
  total_holdings_count :: nat

text \<open>\<open>PortfolioAnalyzer._convert_holdings\<close>\<close>

definition convert_holdings :: "HoldingData list \<Rightarrow> Holding list" where
  "convert_holdings holdings_data =
     map (\<lambda>h. \<lparr>h_symbol = symbol h,
                h_name = name h,
                h_quantity = quantity h,
                h_current_price = current_price h,
                h_average_cost = average_buy_price h,
                h_total_value = position_equity h,
                h_percent_change = percent_change h,
                h_portfolio_percent = percentage_of_portfolio h\<rparr>) holdings_data"

text \<open>
  \<open>PortfolioAnalyzer._analyze_account\<close>. \<open>now\<close> is the value of \<open>datetime.now()\<close> read
  by \<open>save_snapshot\<close>; \<open>today_month\<close> and \<open>today_year\<close> are the values of
  \<open>date.today()\<close> read for the two period changes. The flag that \<open>save_snapshot\<close>
  returns is dropped. The result is the report and the analyzer after the call.
\<close>

definition analyze_account ::
  "(string \<Rightarrow> real option) \<Rightarrow> datetime \<Rightarrow> date \<Rightarrow> date \<Rightarrow> PortfolioAnalyzer \<Rightarrow> string \<Rightarrow> string \<Rightarrow> int
     \<Rightarrow> exn + AccountReport \<times> PortfolioAnalyzer" where
  "analyze_account float_of_str now today_month today_year self account acc_type top_n =
     (case get_portfolio_value_for_account (client self) account of
        Inl e \<Rightarrow> Inl e
      | Inr portfolio_value \<Rightarrow>
          let total = pv_equity portfolio_value;
              cash_bal = pv_cash portfolio_value;
              self' = (case snapshot_service self of
                         None \<Rightarrow> self
                       | Some service \<Rightarrow>
                           self\<lparr>snapshot_service :=
                                  Some (snd (save_snapshot now service account total cash_bal None))\<rparr>)
          in case get_holdings_for_account (client self') account of
               Inl e \<Rightarrow> Inl e
             | Inr holdings_data \<Rightarrow>
                 let holdings = convert_holdings holdings_data in
                 (case calculate_period_change_for_account float_of_str today_month self' account ''month'' of
                    Inl e \<Rightarrow> Inl e
                  | Inr monthly_change \<Rightarrow>
                      (case calculate_period_change_for_account float_of_str today_year self' account ''year'' of
                         Inl e \<Rightarrow> Inl e
                       | Inr ytd_change \<Rightarrow>
                           Inr (\<lparr>account_type = acc_type,
                                 report_account_number = account,
                                 total_value = py_round total 2,
                                 cash_balance = py_round cash_bal 2,
                                 monthly_change_dollars = py_round (dollars monthly_change) 2,
                                 monthly_change_percent = py_round (percent monthly_change) 2,
                                 ytd_change_dollars = py_round (dollars ytd_change) 2,
                                 ytd_change_percent = py_round (percent ytd_change) 2,
                                 top_holdings = holdings,
                                 total_holdings_count = length holdings\<rparr>, self'))))"

section \<open>Properties of the retirement projection\<close>

lemma py_round_nonneg: "0 \<le> x \<Longrightarrow> 0 \<le> py_round x n"
  unfolding py_round_def Let_def
  by auto

text \<open>The projection never raises: its only division is guarded by \<open>monthly_return > 0\<close>.\<close>

lemma project_future_value_eq:
  "project_future_value c m y r =
     Inr (if y \<le> 0 then c
          else if r / 12 > 0 \<and> m > 0
               then c * (1 + r / 12) ^ nat (y * 12) + m * (((1 + r / 12) ^ nat (y * 12) - 1) / (r / 12))
               else c * (1 + r / 12) ^ nat (y * 12) + m * of_int (y * 12))"
  by (auto simp: project_future_value_def py_truediv_def Let_def)

lemma pow_minus_one_pos:
  fixes r :: real and y :: int
  assumes "0 < r" "0 < y"
  shows "0 < (1 + r) ^ nat (y * 12) - 1"
proof -
  have "0 < nat (y * 12)" using assms by simp
  moreover have "1 < 1 + r" using assms by simp
  ultimately have "1 < (1 + r) ^ nat (y * 12)" by (rule_tac one_less_power)
  then show ?thesis by simp
qed

text \<open>
  Neither does the required contribution: with a positive monthly rate and at least one
  month, \<open>(1 + r) ^ months - 1\<close> is positive, and otherwise the divisor is \<open>months\<close>.
\<close>

lemma calculate_monthly_needed_total:
  "\<exists>n. calculate_monthly_needed c t y r = Inr n"
proof (cases "y \<le> 0")
  case True
  then show ?thesis by (simp add: calculate_monthly_needed_def)
next
  case False
  then have y: "0 < y" by simp
  show ?thesis
  proof (cases "0 < r / 12")
    case True
    from pow_minus_one_pos [OF True y] have "(1 + r / 12) ^ nat (y * 12) - 1 \<noteq> 0" by simp
    then show ?thesis using y
      by (simp add: calculate_monthly_needed_def py_truediv_def Let_def)
  next
    case False
    then show ?thesis using y
      by (simp add: calculate_monthly_needed_def py_truediv_def Let_def)
  qed
qed

lemma calculate_progress_zero_target:
  "target_amount cfg = 0 \<Longrightarrow> calculate_progress cfg v = Inl ZeroDivisionError"
  by (simp add: calculate_progress_def py_truediv_def)

lemma calculate_progress_returns:
  assumes "target_amount cfg \<noteq> 0"
  shows "\<exists>projected needed.
           project_future_value v (monthly_contribution cfg)
             (max 0 (target_age cfg - current_age cfg)) (assumed_annual_return cfg) = Inr projected \<and>
           calculate_monthly_needed v (target_amount cfg)
             (max 0 (target_age cfg - current_age cfg)) (assumed_annual_return cfg) = Inr needed \<and>
           calculate_progress cfg v =
             Inr \<lparr>current_value = py_round v 2,
                  progress_target_amount = py_round (target_amount cfg) 2,
                  percent_complete = py_round (v / target_amount cfg * 100) 1,
                  years_remaining = max 0 (target_age cfg - current_age cfg),
                  monthly_needed = py_round (max 0 needed) 2,
                  on_track = (projected \<ge> target_amount cfg),
                  projected_value = py_round projected 2,
                  surplus_or_deficit = py_round (projected - target_amount cfg) 2\<rparr>"
proof -
  obtain needed where n: "calculate_monthly_needed v (target_amount cfg)
             (max 0 (target_age cfg - current_age cfg)) (assumed_annual_return cfg) = Inr needed"
    using calculate_monthly_needed_total by blast
  obtain projected where p: "project_future_value v (monthly_contribution cfg)
             (max 0 (target_age cfg - current_age cfg)) (assumed_annual_return cfg) = Inr projected"
    by (simp add: project_future_value_eq)
  show ?thesis using assms n p
    by (simp add: calculate_progress_def py_truediv_def Let_def)
qed

text \<open>
  C1. The claim: for every configuration with \<open>target_amount \<le> 0\<close>, \<open>calculate_progress\<close>
  fails with \<open>InvalidConfig\<close>. The source validates nothing. What holds instead, for
  every configuration with \<open>target_amount \<le> 0\<close>: \<open>calculate_progress\<close> does not fail with
  \<open>InvalidConfig\<close>, and for \<open>target_amount = 0\<close> it fails with \<open>ZeroDivisionError\<close>, raised
  by the division that computes \<open>percent_complete\<close>.
\<close>

theorem calculate_progress_no_validation:
  "(target_amount cfg = 0 \<longrightarrow> calculate_progress cfg v = Inl ZeroDivisionError) \<and>
   (target_amount cfg \<le> 0 \<longrightarrow> calculate_progress cfg v \<noteq> Inl InvalidConfig)"
proof (cases "target_amount cfg = 0")
  case True
  then show ?thesis by (simp add: calculate_progress_zero_target)
next
  case False
  from calculate_progress_returns [OF False, of v] show ?thesis using False by auto
qed

theorem calculate_progress_no_validation_witness:
  "calculate_progress \<lparr>target_amount = 0, target_age = 65, current_age = 65,
      monthly_contribution = 1000, assumed_annual_return = 7 / 100, birth_year = None\<rparr> 1000
     = Inl ZeroDivisionError \<and>
   calculate_progress \<lparr>target_amount = - 100, target_age = 65, current_age = 65,
      monthly_contribution = 1000, assumed_annual_return = 7 / 100, birth_year = None\<rparr> 1000
     \<noteq> Inl InvalidConfig"
  using calculate_progress_no_validation [of "\<lparr>target_amount = 0, target_age = 65, current_age = 65,
      monthly_contribution = 1000, assumed_annual_return = 7 / 100, birth_year = None\<rparr>" 1000]
    calculate_progress_no_validation [of "\<lparr>target_amount = - 100, target_age = 65, current_age = 65,
      monthly_contribution = 1000, assumed_annual_return = 7 / 100, birth_year = None\<rparr>" 1000]
  by simp

text \<open>
  C1, the claim refuted: a target of zero gives \<open>ZeroDivisionError\<close>, and the target
  \<open>-100\<close> with a current value of 1000 at the target age gives a normal result.
\<close>

theorem calculate_progress_invalid_config_counterexample:
  "target_amount \<lparr>target_amount = 0, target_age = 65, current_age = 65,
      monthly_contribution = 1000, assumed_annual_return = 7 / 100, birth_year = None\<rparr> \<le> 0 \<and>
   calculate_progress \<lparr>target_amount = 0, target_age = 65, current_age = 65,
      monthly_contribution = 1000, assumed_annual_return = 7 / 100, birth_year = None\<rparr> 1000
     = Inl ZeroDivisionError \<and>
   target_amount \<lparr>target_amount = - 100, target_age = 65, current_age = 65,
      monthly_contribution = 1000, assumed_annual_return = 7 / 100, birth_year = None\<rparr> \<le> 0 \<and>
   calculate_progress \<lparr>target_amount = - 100, target_age = 65, current_age = 65,
      monthly_contribution = 1000, assumed_annual_return = 7 / 100, birth_year = None\<rparr> 1000
     = Inr \<lparr>current_value = 1000, progress_target_amount = - 100, percent_complete = - 1000,
            years_remaining = 0, monthly_needed = 0, on_track = True, projected_value = 1000,
            surplus_or_deficit = 1100\<rparr>"
  by (simp add: calculate_progress_def py_truediv_def project_future_value_def
        calculate_monthly_needed_def py_round_def Let_def)

text \<open>
  C2. The claim: with \<open>years_remaining > 0\<close> and a nonzero monthly rate \<open>r\<close>, negative
  rates included, the projected value is the annuity formula
  \<open>current * (1+r)^months + contribution * (((1+r)^months - 1) / r)\<close>, rounded to two
  places at the output. The source takes the annuity branch only under
  \<open>monthly_return > 0 and monthly_contribution > 0\<close>. What holds, for \<open>target_amount \<noteq> 0\<close>
  and \<open>years_remaining > 0\<close>: for \<open>r > 0\<close> and a contribution \<open>\<ge> 0\<close> the projected value is
  the rounded annuity formula; for \<open>r \<le> 0\<close> or a contribution \<open>\<le> 0\<close> it is
  \<open>current * (1+r)^months + contribution * months\<close>, rounded.
\<close>

theorem projected_value_formula:
  assumes "target_amount cfg \<noteq> 0" and "current_age cfg < target_age cfg"
  shows "\<exists>p. calculate_progress cfg v = Inr p \<and>
     (0 < assumed_annual_return cfg / 12 \<and> 0 \<le> monthly_contribution cfg \<longrightarrow>
        projected_value p =
          py_round (v * (1 + assumed_annual_return cfg / 12) ^ nat ((target_age cfg - current_age cfg) * 12)
                    + monthly_contribution cfg *
                      (((1 + assumed_annual_return cfg / 12) ^ nat ((target_age cfg - current_age cfg) * 12) - 1)
                         / (assumed_annual_return cfg / 12))) 2) \<and>
     (assumed_annual_return cfg / 12 \<le> 0 \<or> monthly_contribution cfg \<le> 0 \<longrightarrow>
        projected_value p =
          py_round (v * (1 + assumed_annual_return cfg / 12) ^ nat ((target_age cfg - current_age cfg) * 12)
                    + monthly_contribution cfg * of_int ((target_age cfg - current_age cfg) * 12)) 2)"
proof -
  have yrs: "max 0 (target_age cfg - current_age cfg) = target_age cfg - current_age cfg"
    and pos: "\<not> target_age cfg - current_age cfg \<le> 0"
    using assms(2) by simp_all
  from calculate_progress_returns [OF assms(1), of v]
  obtain projected needed where
    pr: "project_future_value v (monthly_contribution cfg)
           (target_age cfg - current_age cfg) (assumed_annual_return cfg) = Inr projected"
    and cp: "calculate_progress cfg v =
             Inr \<lparr>current_value = py_round v 2,
                  progress_target_amount = py_round (target_amount cfg) 2,
                  percent_complete = py_round (v / target_amount cfg * 100) 1,
                  years_remaining = target_age cfg - current_age cfg,
                  monthly_needed = py_round (max 0 needed) 2,
                  on_track = (projected \<ge> target_amount cfg),
                  projected_value = py_round projected 2,
                  surplus_or_deficit = py_round (projected - target_amount cfg) 2\<rparr>"
    unfolding yrs by blast
  from pr pos show ?thesis
    unfolding cp project_future_value_eq by auto
qed

theorem projected_value_formula_witness:
  "(\<exists>p. calculate_progress \<lparr>target_amount = 1000, target_age = 1, current_age = 0,
      monthly_contribution = 100, assumed_annual_return = 12, birth_year = None\<rparr> 1 = Inr p \<and>
      projected_value p = 413596) \<and>
   (\<exists>p. calculate_progress \<lparr>target_amount = 1000, target_age = 1, current_age = 0,
      monthly_contribution = 100, assumed_annual_return = - 12 / 100, birth_year = None\<rparr> 0 = Inr p \<and>
      projected_value p = 1200)"
  using projected_value_formula [of "\<lparr>target_amount = 1000, target_age = 1, current_age = 0,
      monthly_contribution = 100, assumed_annual_return = 12, birth_year = None\<rparr>" 1]
    projected_value_formula [of "\<lparr>target_amount = 1000, target_age = 1, current_age = 0,
      monthly_contribution = 100, assumed_annual_return = - 12 / 100, birth_year = None\<rparr>" 0]
  by (auto simp: py_round_def Let_def)

text \<open>
  C2, the claim refuted: with an annual return of \<open>-12%\<close> (\<open>r = -0.01\<close>), one year to go,
  a contribution of 100 and nothing saved, the source projects \<open>100 * 12 = 1200\<close>, where
  the annuity formula gives \<open>1136.15\<close>. With a target of zero nothing is projected at all.
\<close>

theorem projected_value_formula_counterexample:
  "assumed_annual_return \<lparr>target_amount = 1000, target_age = 1, current_age = 0,
      monthly_contribution = 100, assumed_annual_return = - 12 / 100, birth_year = None\<rparr> / 12 \<noteq> 0 \<and>
   calculate_progress \<lparr>target_amount = 1000, target_age = 1, current_age = 0,
      monthly_contribution = 100, assumed_annual_return = - 12 / 100, birth_year = None\<rparr> 0
     = Inr \<lparr>current_value = 0, progress_target_amount = 1000, percent_complete = 0,
            years_remaining = 1, monthly_needed = 8333 / 100, on_track = True,
            projected_value = 1200, surplus_or_deficit = 200\<rparr> \<and>
   py_round (0 * (1 + (- 12 / 100) / 12) ^ 12
             + 100 * (((1 + (- 12 / 100) / 12) ^ 12 - 1) / ((- 12 / 100) / 12))) 2 = 113615 / 100 \<and>
   calculate_progress \<lparr>target_amount = 0, target_age = 1, current_age = 0,
      monthly_contribution = 100, assumed_annual_return = - 12 / 100, birth_year = None\<rparr> 0
     = Inl ZeroDivisionError"
proof -
  have "calculate_progress \<lparr>target_amount = 1000, target_age = 1, current_age = 0,
      monthly_contribution = 100, assumed_annual_return = - 12 / 100, birth_year = None\<rparr> 0
     = Inr \<lparr>current_value = 0, progress_target_amount = 1000, percent_complete = 0,
            years_remaining = 1, monthly_needed = 8333 / 100, on_track = True,
            projected_value = 1200, surplus_or_deficit = 200\<rparr>"
    by (simp add: calculate_progress_def py_truediv_def project_future_value_def
        calculate_monthly_needed_def py_round_def Let_def)
  moreover have "py_round (0 * (1 + (- 12 / 100) / 12) ^ 12
             + 100 * (((1 + (- 12 / 100) / 12) ^ 12 - 1) / ((- 12 / 100) / 12))) 2 = 113615 / 100"
    by code_simp
  moreover have "calculate_progress \<lparr>target_amount = 0, target_age = 1, current_age = 0,
      monthly_contribution = 100, assumed_annual_return = - 12 / 100, birth_year = None\<rparr> 0
     = Inl ZeroDivisionError"
    by (simp add: calculate_progress_def py_truediv_def)
  ultimately show ?thesis by simp
qed

text \<open>
  C3. The claim: with \<open>years_remaining = 0\<close>, \<open>calculate_progress\<close> returns
  \<open>projected_value\<close> equal to the current value exactly and \<open>monthly_needed\<close> equal to
  \<open>max(0, target_amount - current_value)\<close>. The source rounds both at the output. What
  holds, for \<open>target_amount \<noteq> 0\<close>: \<open>projected_value\<close> is the current value rounded to two
  places, which is the returned \<open>current_value\<close>, and \<open>monthly_needed\<close> is
  \<open>max(0, target_amount - current_value)\<close> rounded to two places.
\<close>

theorem zero_years_remaining:
  assumes "target_amount cfg \<noteq> 0" and "target_age cfg \<le> current_age cfg"
  shows "\<exists>p. calculate_progress cfg v = Inr p \<and>
           years_remaining p = 0 \<and>
           projected_value p = py_round v 2 \<and>
           projected_value p = current_value p \<and>
           monthly_needed p = py_round (max 0 (target_amount cfg - v)) 2"
proof -
  have yrs: "max 0 (target_age cfg - current_age cfg) = 0"
    using assms(2) by simp
  from calculate_progress_returns [OF assms(1), of v]
  show ?thesis
    unfolding yrs by (auto simp: project_future_value_def calculate_monthly_needed_def)
qed

theorem zero_years_remaining_witness:
  "\<exists>p. calculate_progress \<lparr>target_amount = 2000000, target_age = 65, current_age = 70,
      monthly_contribution = 1000, assumed_annual_return = 7 / 100, birth_year = None\<rparr> 500000 = Inr p \<and>
      projected_value p = 500000 \<and> monthly_needed p = 1500000"
  using zero_years_remaining [of "\<lparr>target_amount = 2000000, target_age = 65, current_age = 70,
      monthly_contribution = 1000, assumed_annual_return = 7 / 100, birth_year = None\<rparr>" 500000]
  by (auto simp: py_round_def Let_def)

text \<open>
  C3, the claim refuted: with a target of 1.004 and a current value of 0.996 at the target
  age, the returned \<open>projected_value\<close> is 1.0, not 0.996, and \<open>monthly_needed\<close> is 0.01,
  which is neither \<open>max(0, 1.004 - 0.996) = 0.008\<close> nor the same expression on the returned
  fields, \<open>max(0, 1.0 - 1.0) = 0\<close>. With a target of zero nothing is returned.
\<close>

theorem zero_years_remaining_counterexample:
  "calculate_progress \<lparr>target_amount = 1004 / 1000, target_age = 65, current_age = 65,
      monthly_contribution = 0, assumed_annual_return = 7 / 100, birth_year = None\<rparr> (996 / 1000)
     = Inr \<lparr>current_value = 1, progress_target_amount = 1, percent_complete = 992 / 10,
            years_remaining = 0, monthly_needed = 1 / 100, on_track = False,
            projected_value = 1, surplus_or_deficit = - 1 / 100\<rparr> \<and>
   (1::real) \<noteq> 996 / 1000 \<and>
   (1 / 100 :: real) \<noteq> max 0 (1004 / 1000 - 996 / 1000) \<and>
   (1 / 100 :: real) \<noteq> max 0 (1 - 1) \<and>
   calculate_progress \<lparr>target_amount = 0, target_age = 65, current_age = 65,
      monthly_contribution = 0, assumed_annual_return = 7 / 100, birth_year = None\<rparr> (996 / 1000)
     = Inl ZeroDivisionError"
  by (simp add: calculate_progress_def py_truediv_def project_future_value_def
        calculate_monthly_needed_def py_round_def Let_def)

text \<open>
  C6. The claim: with \<open>assumed_annual_return = 0\<close>, \<open>monthly_contribution > 0\<close> and
  \<open>years_remaining > 0\<close>, the projected value of \<open>calculate_progress\<close> equals
  \<open>current_value + monthly_contribution * years_remaining * 12\<close>. The source rounds it at
  the output. What holds, for \<open>target_amount \<noteq> 0\<close>: the projected value is that sum rounded
  to two places.
\<close>

theorem zero_return_projection:
  assumes "target_amount cfg \<noteq> 0" and "assumed_annual_return cfg = 0"
    and "0 < monthly_contribution cfg" and "current_age cfg < target_age cfg"
  shows "\<exists>p. calculate_progress cfg v = Inr p \<and>
           years_remaining p = target_age cfg - current_age cfg \<and>
           projected_value p =
             py_round (v + monthly_contribution cfg * of_int (years_remaining p) * 12) 2"
proof -
  have yrs: "max 0 (target_age cfg - current_age cfg) = target_age cfg - current_age cfg"
    using assms(4) by simp
  from calculate_progress_returns [OF assms(1), of v]
  show ?thesis
    unfolding yrs project_future_value_eq using assms(2,4) by (auto simp: mult.assoc)
qed

theorem zero_return_projection_witness:
  "\<exists>p. calculate_progress \<lparr>target_amount = 2000000, target_age = 65, current_age = 35,
      monthly_contribution = 1000, assumed_annual_return = 0, birth_year = None\<rparr> 500000 = Inr p \<and>
      projected_value p = 860000"
  using zero_return_projection [of "\<lparr>target_amount = 2000000, target_age = 65, current_age = 35,
      monthly_contribution = 1000, assumed_annual_return = 0, birth_year = None\<rparr>" 500000]
  by (auto simp: py_round_def Let_def)

text \<open>
  C6, the claim refuted: with a current value of 0.001, a contribution of 1 and one year
  to go, the returned projected value is 12.0, not 12.001. With a target of zero nothing
  is returned.
\<close>

theorem zero_return_projection_counterexample:
  "calculate_progress \<lparr>target_amount = 100, target_age = 1, current_age = 0,
      monthly_contribution = 1, assumed_annual_return = 0, birth_year = None\<rparr> (1 / 1000)
     = Inr \<lparr>current_value = 0, progress_target_amount = 100, percent_complete = 0,
            years_remaining = 1, monthly_needed = 833 / 100, on_track = False,
            projected_value = 12, surplus_or_deficit = - 88\<rparr> \<and>
   (12 :: real) \<noteq> 1 / 1000 + 1 * 1 * 12 \<and>
   calculate_progress \<lparr>target_amount = 0, target_age = 1, current_age = 0,
      monthly_contribution = 1, assumed_annual_return = 0, birth_year = None\<rparr> (1 / 1000)
     = Inl ZeroDivisionError"
  by (simp add: calculate_progress_def py_truediv_def project_future_value_def
        calculate_monthly_needed_def py_round_def Let_def)

text \<open>
  C9. For every current value and every configuration with a nonzero target,
  \<open>calculate_progress\<close> returns a progress record whose \<open>monthly_needed\<close> is not negative,
  whatever the signs of the assumed return and of the current value.
\<close>

theorem monthly_needed_nonneg:
  assumes "target_amount cfg \<noteq> 0"
  shows "\<exists>p. calculate_progress cfg v = Inr p \<and> 0 \<le> monthly_needed p"
  using calculate_progress_returns [OF assms, of v]
  by (auto simp: py_round_nonneg)

theorem monthly_needed_nonneg_witness:
  "\<exists>p. calculate_progress \<lparr>target_amount = 1000, target_age = 1, current_age = 0,
      monthly_contribution = 100, assumed_annual_return = - 12 / 100, birth_year = None\<rparr> (- 50) = Inr p \<and>
      0 \<le> monthly_needed p"
  using monthly_needed_nonneg [of "\<lparr>target_amount = 1000, target_age = 1, current_age = 0,
      monthly_contribution = 100, assumed_annual_return = - 12 / 100, birth_year = None\<rparr>" "- 50"]
  by simp

text \<open>
  C8. A configuration constructed with \<open>birth_year\<close> set has \<open>current_age\<close> equal to the year
  of construction minus \<open>birth_year\<close>, whatever \<open>current_age\<close> was supplied; without
  \<open>birth_year\<close> the supplied \<open>current_age\<close> is kept.
\<close>

theorem current_age_from_birth_year:
  "current_age (RetirementConfig_init yr t ta ca mc r (Some b)) = yr - b \<and>
   current_age (RetirementConfig_init yr t ta ca mc r None) = ca"
  by (simp add: RetirementConfig_init_def)

section \<open>Properties of the snapshot store\<close>

text \<open>
  C10. For every snapshot \<open>s\<close>, \<open>from_dict(s.to_dict())\<close> returns a snapshot with the
  account number, timestamp, equity and cash of \<open>s\<close>, whatever parser \<open>float\<close> uses for
  strings.
\<close>

theorem from_dict_to_dict: "from_dict float_of_str (to_dict s) = Inr s"
  by (simp add: from_dict_def to_dict_def py_getitem_def py_float_def)

text \<open>
  The result of \<open>calculate_period_change\<close> in terms of the two lookups; the division is
  reached only with a positive divisor.
\<close>

lemma calculate_period_change_cases:
  "calculate_period_change pf today self acct start end_opt =
     (case (get_snapshot pf self acct start,
            get_snapshot pf self acct (case end_opt of None \<Rightarrow> today | Some d \<Rightarrow> d)) of
        (Some s, Some e) \<Rightarrow>
          Inr (Some \<lparr>change_dollars = equity e - equity s,
                     change_percent = (if equity s > 0 then (equity e - equity s) / equity s * 100 else 0),
                     start_equity = equity s, end_equity = equity e\<rparr>)
      | _ \<Rightarrow> Inr None)"
  by (auto simp: calculate_period_change_def py_truediv_def Let_def split: option.splits)

lemma calculate_period_change_no_exception:
  "\<exists>r. calculate_period_change pf today self acct start end_opt = Inr r"
  unfolding calculate_period_change_cases by (auto split: option.splits)

text \<open>
  C4. \<open>calculate_period_change\<close> raises nothing, in particular no division error. It
  returns \<open>None\<close> exactly when \<open>get_snapshot\<close> finds no snapshot at the start date or at
  the end date (the end date is today when none is given). When both are found, the result
  has \<open>change_dollars = end.equity - start.equity\<close>, and \<open>change_percent\<close> is
  \<open>change_dollars / start.equity * 100\<close> for \<open>start.equity > 0\<close> and \<open>0.0\<close> otherwise.
\<close>

theorem calculate_period_change_result:
  "\<exists>r. calculate_period_change pf today self acct start end_opt = Inr r \<and>
     (r = None \<longleftrightarrow>
        get_snapshot pf self acct start = None \<or>
        get_snapshot pf self acct (case end_opt of None \<Rightarrow> today | Some d \<Rightarrow> d) = None) \<and>
     (\<forall>s e. get_snapshot pf self acct start = Some s \<and>
            get_snapshot pf self acct (case end_opt of None \<Rightarrow> today | Some d \<Rightarrow> d) = Some e \<longrightarrow>
        r = Some \<lparr>change_dollars = equity e - equity s,
                  change_percent = (if equity s > 0 then (equity e - equity s) / equity s * 100 else 0),
                  start_equity = equity s, end_equity = equity e\<rparr>)"
  unfolding calculate_period_change_cases
  by (auto split: option.splits)

theorem calculate_period_change_result_witness:
  "calculate_period_change (\<lambda>s. None) \<lparr>year = 2024, month = 3, day = 9\<rparr>
     \<lparr>bucket = ''reports'',
      objects = [''portfolio-snapshots/account-A1/2024-01-01.json'' \<mapsto>
                   Json (PDict [(''account_number'', PStr ''A1''), (''timestamp'', PStr ''2024-01-01T09:00:00''),
                                (''equity'', PFloat 10000), (''cash'', PFloat 250)]),
                 ''portfolio-snapshots/account-A1/2024-02-01.json'' \<mapsto>
                   Json (PDict [(''account_number'', PStr ''A1''), (''timestamp'', PStr ''2024-02-01T09:00:00''),
                                (''equity'', PInt 10500), (''cash'', PFloat 300)])],
      fault = None\<rparr>
     ''A1'' \<lparr>year = 2024, month = 1, day = 1\<rparr> (Some \<lparr>year = 2024, month = 2, day = 1\<rparr>)
   = Inr (Some \<lparr>change_dollars = 500, change_percent = 5, start_equity = 10000, end_equity = 10500\<rparr>)"
proof -
  let ?svc = "\<lparr>bucket = ''reports'',
      objects = [''portfolio-snapshots/account-A1/2024-01-01.json'' \<mapsto>
                   Json (PDict [(''account_number'', PStr ''A1''), (''timestamp'', PStr ''2024-01-01T09:00:00''),
                                (''equity'', PFloat 10000), (''cash'', PFloat 250)]),
                 ''portfolio-snapshots/account-A1/2024-02-01.json'' \<mapsto>
                   Json (PDict [(''account_number'', PStr ''A1''), (''timestamp'', PStr ''2024-02-01T09:00:00''),
                                (''equity'', PInt 10500), (''cash'', PFloat 300)])],
      fault = None\<rparr>"
  have s: "get_snapshot (\<lambda>s. None) ?svc ''A1'' \<lparr>year = 2024, month = 1, day = 1\<rparr>
        = Some \<lparr>account_number = PStr ''A1'', timestamp = PStr ''2024-01-01T09:00:00'',
                 equity = 10000, cash = 250\<rparr>"
    by (simp add: get_snapshot_def get_object_def json_loads_def from_dict_def py_getitem_def
          py_float_def snapshot_key_def SNAPSHOT_PREFIX_def strftime_ymd_def zfill_def
          str_nat.simps digit_def Let_def)
  have e: "get_snapshot (\<lambda>s. None) ?svc ''A1'' \<lparr>year = 2024, month = 2, day = 1\<rparr>
        = Some \<lparr>account_number = PStr ''A1'', timestamp = PStr ''2024-02-01T09:00:00'',
                 equity = 10500, cash = 300\<rparr>"
    by (simp add: get_snapshot_def get_object_def json_loads_def from_dict_def py_getitem_def
          py_float_def snapshot_key_def SNAPSHOT_PREFIX_def strftime_ymd_def zfill_def
          str_nat.simps digit_def Let_def)
  from calculate_period_change_result [of "\<lambda>s. None" "\<lparr>year = 2024, month = 3, day = 9\<rparr>" ?svc
      "''A1''" "\<lparr>year = 2024, month = 1, day = 1\<rparr>" "Some \<lparr>year = 2024, month = 2, day = 1\<rparr>"]
  show ?thesis using s e by auto
qed

text \<open>
  C5. While the store answers requests, two \<open>save_snapshot\<close> calls for the same account
  whose timestamps (the given one, or the current time when none is given) fall on the
  same calendar day both succeed, and \<open>get_snapshot\<close> for that account and day then
  returns the snapshot of the later call: the earlier one has been overwritten.
\<close>

theorem save_snapshot_last_write_wins:
  assumes "fault self = None"
    and "t1 = (case ts1 of None \<Rightarrow> now1 | Some t \<Rightarrow> t)"
    and "t2 = (case ts2 of None \<Rightarrow> now2 | Some t \<Rightarrow> t)"
    and "year t1 = year t2" and "month t1 = month t2" and "day t1 = day t2"
    and "year d = year t2" and "month d = month t2" and "day d = day t2"
  shows "fst (save_snapshot now1 self acct e1 c1 ts1) \<and>
         fst (save_snapshot now2 (snd (save_snapshot now1 self acct e1 c1 ts1)) acct e2 c2 ts2) \<and>
         get_snapshot pf (snd (save_snapshot now2 (snd (save_snapshot now1 self acct e1 c1 ts1))
                                 acct e2 c2 ts2)) acct d
           = Some \<lparr>account_number = PStr acct, timestamp = PStr (isoformat t2), equity = e2, cash = c2\<rparr>"
proof -
  have k: "strftime_ymd t1 = strftime_ymd t2" "strftime_ymd d = strftime_ymd t2"
    using assms(4-9) by (simp_all add: strftime_ymd_def)
  show ?thesis
    using assms(1) k unfolding assms(2,3) [symmetric]
    by (simp add: save_snapshot_def put_object_def get_snapshot_def get_object_def json_loads_def
          json_dumps_def from_dict_def to_dict_def py_getitem_def py_float_def Let_def
          assms(2,3) [symmetric])
qed

theorem save_snapshot_last_write_wins_witness:
  "get_snapshot (\<lambda>s. None)
     (snd (save_snapshot \<lparr>year = 2024, month = 3, day = 9, hour = 0, minute = 0, second = 0, microsecond = 0\<rparr>
        (snd (save_snapshot \<lparr>year = 2024, month = 3, day = 9, hour = 0, minute = 0, second = 0, microsecond = 0\<rparr>
                \<lparr>bucket = ''reports'', objects = Map.empty, fault = None\<rparr> ''A1'' 10000 250
                (Some \<lparr>year = 2024, month = 2, day = 1, hour = 9, minute = 30, second = 0, microsecond = 0\<rparr>)))
        ''A1'' 10500 300
        (Some \<lparr>year = 2024, month = 2, day = 1, hour = 17, minute = 5, second = 42, microsecond = 1500\<rparr>)))
     ''A1'' \<lparr>year = 2024, month = 2, day = 1\<rparr>
   = Some \<lparr>account_number = PStr ''A1'', timestamp = PStr ''2024-02-01T17:05:42.001500'',
           equity = 10500, cash = 300\<rparr>"
proof -
  have iso: "isoformat \<lparr>year = 2024, month = 2, day = 1, hour = 17, minute = 5, second = 42, microsecond = 1500\<rparr>
      = ''2024-02-01T17:05:42.001500''"
    by (simp add: isoformat_def strftime_ymd_def zfill_def str_nat.simps digit_def numeral_2_eq_2)
  from save_snapshot_last_write_wins [where self = "\<lparr>bucket = ''reports'', objects = Map.empty, fault = None\<rparr>"
      and ?t1.0 = "\<lparr>year = 2024, month = 2, day = 1, hour = 9, minute = 30, second = 0, microsecond = 0\<rparr>"
      and ?ts1.0 = "Some \<lparr>year = 2024, month = 2, day = 1, hour = 9, minute = 30, second = 0, microsecond = 0\<rparr>"
      and ?t2.0 = "\<lparr>year = 2024, month = 2, day = 1, hour = 17, minute = 5, second = 42, microsecond = 1500\<rparr>"
      and ?ts2.0 = "Some \<lparr>year = 2024, month = 2, day = 1, hour = 17, minute = 5, second = 42, microsecond = 1500\<rparr>"
      and d = "\<lparr>year = 2024, month = 2, day = 1\<rparr>"
      and ?now1.0 = "\<lparr>year = 2024, month = 3, day = 9, hour = 0, minute = 0, second = 0, microsecond = 0\<rparr>"
      and ?now2.0 = "\<lparr>year = 2024, month = 3, day = 9, hour = 0, minute = 0, second = 0, microsecond = 0\<rparr>"
      and acct = "''A1''" and ?e1.0 = 10000 and ?c1.0 = 250 and ?e2.0 = 10500 and ?c2.0 = 300
      and pf = "\<lambda>s. None"]
  show ?thesis unfolding iso by simp
qed

section \<open>Properties of the period change of the analyzer\<close>

text \<open>
  The holdings-based tier raises only through its login check. The analyzer is constructed
  with an authenticated client, and \<open>_analyze_account\<close> fetches the portfolio value of the
  account before it asks for a period change, through \<open>get_portfolio_value_for_account\<close>,
  which makes the same check.
\<close>

lemma portfolio_fetch_needs_login:
  "get_portfolio_value_for_account c acct = Inr pv \<Longrightarrow> logged_in c"
  by (auto simp: get_portfolio_value_for_account_def ensure_logged_in_def split: if_splits)

lemma calculate_account_performance_logged_in:
  "logged_in c \<Longrightarrow> \<exists>p. calculate_account_performance c acct = Inr p"
  by (auto simp: calculate_account_performance_def ensure_logged_in_def Let_def
           split: sum.splits prod.splits)

lemma get_historical_logged_in:
  "logged_in c \<Longrightarrow> \<exists>h. get_historical_portfolio_for_account c acct sp = Inr h"
  by (auto simp: get_historical_portfolio_for_account_def ensure_logged_in_def
           split: sum.splits option.splits)

lemma get_historical_not_logged_in:
  "\<not> logged_in c \<Longrightarrow> get_historical_portfolio_for_account c acct sp = Inl RuntimeError"
  by (simp add: get_historical_portfolio_for_account_def ensure_logged_in_def)

text \<open>With a logged-in client the period change raises nothing, for any span.\<close>

lemma period_change_no_exception:
  assumes "logged_in (client self)"
  shows "\<exists>r. calculate_period_change_for_account pf today self acct sp = Inr r"
proof -
  obtain h where "get_historical_portfolio_for_account (client self) acct sp = Inr h"
    using get_historical_logged_in [OF assms] by blast
  then show ?thesis
    by (auto simp: calculate_period_change_for_account_def split: option.splits)
qed

text \<open>
  Hence the report of an account is aborted by the portfolio fetch or not at all: once the
  fetch has succeeded, \<open>_analyze_account\<close> returns a report, whose period changes are the
  rounded results of \<open>_calculate_period_change_for_account\<close>.
\<close>

lemma analyze_account_after_fetch:
  assumes "get_portfolio_value_for_account (client self) acct = Inr pv"
  shows "\<exists>report self' m y.
           analyze_account pf now tm ty self acct aty n = Inr (report, self') \<and>
           client self' = client self \<and>
           calculate_period_change_for_account pf tm self' acct ''month'' = Inr m \<and>
           calculate_period_change_for_account pf ty self' acct ''year'' = Inr y \<and>
           monthly_change_dollars report = py_round (dollars m) 2 \<and>
           monthly_change_percent report = py_round (percent m) 2 \<and>
           ytd_change_dollars report = py_round (dollars y) 2 \<and>
           ytd_change_percent report = py_round (percent y) 2"
proof -
  define self' where "self' = (case snapshot_service self of
                         None \<Rightarrow> self
                       | Some service \<Rightarrow>
                           self\<lparr>snapshot_service :=
                                  Some (snd (save_snapshot now service acct (pv_equity pv) (pv_cash pv) None))\<rparr>)"
  have c: "client self' = client self"
    by (simp add: self'_def split: option.splits)
  have li: "logged_in (client self')"
    using portfolio_fetch_needs_login [OF assms] c by simp
  obtain m where m: "calculate_period_change_for_account pf tm self' acct ''month'' = Inr m"
    using period_change_no_exception [OF li] by blast
  obtain y where y: "calculate_period_change_for_account pf ty self' acct ''year'' = Inr y"
    using period_change_no_exception [OF li] by blast
  have h: "get_holdings_for_account (client self') acct = Inr (rh_holdings (client self') acct)"
    using li by (simp add: get_holdings_for_account_def ensure_logged_in_def)
  show ?thesis
    using assms c m y h
    by (simp add: analyze_account_def Let_def self'_def [symmetric])
qed

lemma analyze_account_aborts_only_at_fetch:
  assumes "analyze_account pf now tm ty self acct aty n = Inl e"
  shows "get_portfolio_value_for_account (client self) acct = Inl e"
proof (cases "get_portfolio_value_for_account (client self) acct")
  case (Inl e')
  then show ?thesis using assms by (simp add: analyze_account_def)
next
  case (Inr pv)
  from analyze_account_after_fetch [OF Inr, of pf now tm ty aty n] assms
  show ?thesis by auto
qed

text \<open>Outside report generation: without a login and without snapshots the check raises.\<close>

lemma period_change_not_logged_in:
  assumes "\<not> logged_in (client self)" and "snapshot_service self = None"
  shows "calculate_period_change_for_account pf today self acct span' = Inl RuntimeError"
  using assms
  by (simp add: calculate_period_change_for_account_def get_historical_not_logged_in)

text \<open>
  C7. For an analyzer whose client is logged in, every account and every span in
  \<open>{month, year}\<close>, \<open>_calculate_period_change_for_account\<close> raises nothing and returns,
  in this order: the change between the snapshots of the first day of the current month
  (for \<open>month\<close>) or of January 1 of the current year (for \<open>year\<close>) and of today, when the
  snapshot service is present and yields one; otherwise the holdings-based change of the
  client when there is one; otherwise \<open>{dollars: 0.0, percent: 0.0}\<close>.
\<close>

theorem period_change_three_tier:
  assumes "logged_in (client self)" and "span' = ''month'' \<or> span' = ''year''"
  shows "\<exists>r. calculate_period_change_for_account pf today self acct span' = Inr r \<and>
     (\<forall>service pc.
        snapshot_service self = Some service \<and>
        calculate_period_change pf today service acct
          (if span' = ''month'' then today\<lparr>day := 1\<rparr> else today\<lparr>month := 1, day := 1\<rparr>)
          (Some today) = Inr (Some pc)
        \<longrightarrow> r = \<lparr>dollars = change_dollars pc, percent = change_percent pc\<rparr>) \<and>
     (snapshot_service self = None \<or>
      (\<exists>service. snapshot_service self = Some service \<and>
         calculate_period_change pf today service acct
           (if span' = ''month'' then today\<lparr>day := 1\<rparr> else today\<lparr>month := 1, day := 1\<rparr>)
           (Some today) = Inr None)
      \<longrightarrow>
        (\<forall>h. get_historical_portfolio_for_account (client self) acct span' = Inr (Some h)
           \<longrightarrow> r = \<lparr>dollars = hist_change_dollars h, percent = hist_change_percent h\<rparr>) \<and>
        (get_historical_portfolio_for_account (client self) acct span' = Inr None
           \<longrightarrow> r = \<lparr>dollars = 0, percent = 0\<rparr>))"
proof -
  obtain h where h: "get_historical_portfolio_for_account (client self) acct span' = Inr h"
    using get_historical_logged_in [OF assms(1)] by blast
  show ?thesis
  proof (cases "snapshot_service self")
    case None
    then show ?thesis using h
      by (auto simp: calculate_period_change_for_account_def split: option.splits)
  next
    case (Some service)
    obtain r where r: "calculate_period_change pf today service acct
          (if span' = ''month'' then today\<lparr>day := 1\<rparr> else today\<lparr>month := 1, day := 1\<rparr>)
          (Some today) = Inr r"
      using calculate_period_change_no_exception by blast
    show ?thesis
      using Some h r assms(2)
      by (cases r)
         (auto simp: calculate_period_change_for_account_def
                     calculate_period_change_from_snapshots_def split: option.splits)
  qed
qed

theorem period_change_three_tier_witness:
  "calculate_period_change_for_account (\<lambda>s. None) \<lparr>year = 2024, month = 2, day = 1\<rparr>
     \<lparr>client = \<lparr>logged_in = True, rh_portfolio = (\<lambda>a. Inl OtherException), rh_holdings = (\<lambda>a. [])\<rparr>,
      snapshot_service = Some
        \<lparr>bucket = ''reports'',
      objects = [''portfolio-snapshots/account-A1/2024-01-01.json'' \<mapsto>
                   Json (PDict [(''account_number'', PStr ''A1''), (''timestamp'', PStr ''2024-01-01T09:00:00''),
                                (''equity'', PFloat 10000), (''cash'', PFloat 250)]),
                 ''portfolio-snapshots/account-A1/2024-02-01.json'' \<mapsto>
                   Json (PDict [(''account_number'', PStr ''A1''), (''timestamp'', PStr ''2024-02-01T09:00:00''),
                                (''equity'', PInt 10500), (''cash'', PFloat 300)])],
      fault = None\<rparr>\<rparr>
     ''A1'' ''year''
     = Inr \<lparr>dollars = 500, percent = 5\<rparr> \<and>
   calculate_period_change_for_account (\<lambda>s. None) \<lparr>year = 2024, month = 2, day = 1\<rparr>
     \<lparr>client = \<lparr>logged_in = True,
                 rh_portfolio = (\<lambda>a. Inr \<lparr>pv_equity = 1150, pv_cash = 50\<rparr>),
                 rh_holdings = (\<lambda>a. [\<lparr>symbol = ''VTI'', name = ''Vanguard Total Stock Market ETF'',
                                        quantity = 10, average_buy_price = 100, current_price = 110,
                                        position_equity = 1100, percent_change = 10,
                                        equity_change = 100, percentage_of_portfolio = 1100 / 1150 * 100\<rparr>])\<rparr>,
      snapshot_service = None\<rparr>
     ''A1'' ''month''
     = Inr \<lparr>dollars = 100, percent = 10\<rparr> \<and>
   calculate_period_change_for_account (\<lambda>s. None) \<lparr>year = 2024, month = 2, day = 1\<rparr>
     \<lparr>client = \<lparr>logged_in = True, rh_portfolio = (\<lambda>a. Inl OtherException), rh_holdings = (\<lambda>a. [])\<rparr>,
      snapshot_service = Some \<lparr>bucket = ''reports'', objects = Map.empty, fault = None\<rparr>\<rparr>
     ''A1'' ''month''
     = Inr \<lparr>dollars = 0, percent = 0\<rparr>"
proof -
  let ?today = "\<lparr>year = 2024, month = 2, day = 1\<rparr>"
  let ?offline = "\<lparr>logged_in = True, rh_portfolio = (\<lambda>a. Inl OtherException), rh_holdings = (\<lambda>a. [])\<rparr>"
  let ?online = "\<lparr>logged_in = True,
                 rh_portfolio = (\<lambda>a. Inr \<lparr>pv_equity = 1150, pv_cash = 50\<rparr>),
                 rh_holdings = (\<lambda>a. [\<lparr>symbol = ''VTI'', name = ''Vanguard Total Stock Market ETF'',
                                        quantity = 10, average_buy_price = 100, current_price = 110,
                                        position_equity = 1100, percent_change = 10,
                                        equity_change = 100, percentage_of_portfolio = 1100 / 1150 * 100\<rparr>])\<rparr>"
  let ?svc = "\<lparr>bucket = ''reports'',
      objects = [''portfolio-snapshots/account-A1/2024-01-01.json'' \<mapsto>
                   Json (PDict [(''account_number'', PStr ''A1''), (''timestamp'', PStr ''2024-01-01T09:00:00''),
                                (''equity'', PFloat 10000), (''cash'', PFloat 250)]),
                 ''portfolio-snapshots/account-A1/2024-02-01.json'' \<mapsto>
                   Json (PDict [(''account_number'', PStr ''A1''), (''timestamp'', PStr ''2024-02-01T09:00:00''),
                                (''equity'', PInt 10500), (''cash'', PFloat 300)])],
      fault = None\<rparr>"
  let ?empty = "\<lparr>bucket = ''reports'', objects = Map.empty, fault = None\<rparr>"
  have t1: "calculate_period_change (\<lambda>s. None) ?today ?svc ''A1''
              (if ''year'' = ''month'' then ?today\<lparr>day := 1\<rparr> else ?today\<lparr>month := 1, day := 1\<rparr>)
              (Some ?today)
            = Inr (Some \<lparr>change_dollars = 500, change_percent = 5, start_equity = 10000, end_equity = 10500\<rparr>)"
    by (simp add: calculate_period_change_def py_truediv_def get_snapshot_def get_object_def
          json_loads_def from_dict_def py_getitem_def py_float_def snapshot_key_def SNAPSHOT_PREFIX_def
          strftime_ymd_def zfill_def str_nat.simps digit_def Let_def)
  have t2: "get_historical_portfolio_for_account ?online ''A1'' ''month''
            = Inr (Some \<lparr>start_value = 1000, end_value = 1150, hist_change_dollars = 100,
                         hist_change_percent = 10, data_points = 1, method_name = ''holdings_based''\<rparr>)"
    by (simp add: get_historical_portfolio_for_account_def calculate_account_performance_def
          get_portfolio_value_for_account_def get_holdings_for_account_def ensure_logged_in_def
          py_truediv_def Let_def)
  have t3: "calculate_period_change (\<lambda>s. None) ?today ?empty ''A1''
              (if ''month'' = ''month'' then ?today\<lparr>day := 1\<rparr> else ?today\<lparr>month := 1, day := 1\<rparr>)
              (Some ?today) = Inr None"
    by (simp add: calculate_period_change_def get_snapshot_def get_object_def Let_def)
  have t4: "get_historical_portfolio_for_account ?offline ''A1'' ''month'' = Inr None"
    by (simp add: get_historical_portfolio_for_account_def calculate_account_performance_def
          get_portfolio_value_for_account_def ensure_logged_in_def)
  have w1: "calculate_period_change_for_account (\<lambda>s. None) ?today
              \<lparr>client = ?offline, snapshot_service = Some ?svc\<rparr> ''A1'' ''year''
            = Inr \<lparr>dollars = 500, percent = 5\<rparr>"
    using period_change_three_tier [of "\<lparr>client = ?offline, snapshot_service = Some ?svc\<rparr>" "''year''"
        "\<lambda>s. None" ?today "''A1''"] t1
    by auto
  have w2: "calculate_period_change_for_account (\<lambda>s. None) ?today
              \<lparr>client = ?online, snapshot_service = None\<rparr> ''A1'' ''month''
            = Inr \<lparr>dollars = 100, percent = 10\<rparr>"
    using period_change_three_tier [of "\<lparr>client = ?online, snapshot_service = None\<rparr>" "''month''"
        "\<lambda>s. None" ?today "''A1''"] t2
    by auto
  have w3: "calculate_period_change_for_account (\<lambda>s. None) ?today
              \<lparr>client = ?offline, snapshot_service = Some ?empty\<rparr> ''A1'' ''month''
            = Inr \<lparr>dollars = 0, percent = 0\<rparr>"
    using period_change_three_tier [of "\<lparr>client = ?offline, snapshot_service = Some ?empty\<rparr>" "''month''"
        "\<lambda>s. None" ?today "''A1''"] t3 t4
    by auto
  from w1 w2 w3 show ?thesis by blast
qed

end
